theory Spec2Isabelle
  imports
    Main
    "HOL-Library.Char_ord"
    "HOL-Library.List_Lexorder"
    "HOL-Library.Multiset"
    "HOL-Library.Sublist"
begin

section \<open>Values, rows and errors\<close>

text \<open>
  The handlers of \<^verbatim>\<open>main.py\<close> work on the JSON rows the record store delivers. A JSON
  scalar is null, a boolean, an integer or a string (strings are UTF-8 byte lists, whose
  lexicographic order on bytes is Python's order on code points). A row is a Python
  \<^verbatim>\<open>dict\<close> from column names to values. Floating-point and nested values are outside
  the model.
\<close>

datatype jval = JNull | JBool bool | JInt int | JStr string

type_synonym row = "string \<rightharpoonup> jval"

text \<open>
  Every exception of the source is a value: \<^verbatim>\<open>TypeError\<close>, \<^verbatim>\<open>KeyError\<close> and
  \<^verbatim>\<open>AttributeError\<close> are raised by Python itself, \<^verbatim>\<open>APIError\<close> is what a call of
  the record store raises when the backend fails. No handler catches anything, so an
  error ends the handler.
\<close>

datatype error = TypeError | KeyError string | AttributeError | APIError string

subsection \<open>Python primitives used by the handlers\<close>

text \<open>\<^verbatim>\<open>x.get(k, default)\<close>: the default is used only when the key is missing.\<close>

definition dict_get :: "row \<Rightarrow> string \<Rightarrow> jval \<Rightarrow> jval" where
  "dict_get x k dflt = (case x k of None \<Rightarrow> dflt | Some v \<Rightarrow> v)"

text \<open>\<^verbatim>\<open>x[k]\<close>: a missing key raises \<^verbatim>\<open>KeyError\<close>.\<close>

definition dict_item :: "row \<Rightarrow> string \<Rightarrow> error + jval" where
  "dict_item x k = (case x k of None \<Rightarrow> Inl (KeyError k) | Some v \<Rightarrow> Inr v)"

text \<open>Truth value of a JSON scalar in a Python condition.\<close>

fun truthy :: "jval \<Rightarrow> bool" where
  "truthy JNull = False"
| "truthy (JBool b) = b"
| "truthy (JInt n) = (n \<noteq> 0)"
| "truthy (JStr s) = (s \<noteq> [])"

text \<open>
  \<^verbatim>\<open>v >= k\<close> for an integer \<^verbatim>\<open>k\<close>: integers compare, booleans compare as 0 and 1,
  \<^verbatim>\<open>None\<close> and strings raise \<^verbatim>\<open>TypeError\<close>.
\<close>

fun py_ge_int :: "jval \<Rightarrow> int \<Rightarrow> error + bool" where
  "py_ge_int (JInt n) k = Inr (n \<ge> k)"
| "py_ge_int (JBool b) k = Inr ((if b then 1 else 0) \<ge> k)"
| "py_ge_int JNull k = Inl TypeError"
| "py_ge_int (JStr s) k = Inl TypeError"

text \<open>\<^verbatim>\<open>str(v)\<close>: decimal digits for an integer, the value itself for a string.\<close>

definition digit_char :: "nat \<Rightarrow> char" where
  "digit_char n = ''0123456789'' ! n"

function str_nat :: "nat \<Rightarrow> string" where
  "str_nat n = (if n < 10 then [digit_char n] else str_nat (n div 10) @ [digit_char (n mod 10)])"
  by pat_completeness auto
termination
  by (relation "measure id") auto

declare str_nat.simps [simp del]

definition str_int :: "int \<Rightarrow> string" where
  "str_int i = (if i < 0 then CHR ''-'' # str_nat (nat (- i)) else str_nat (nat i))"

fun py_str :: "jval \<Rightarrow> string" where
  "py_str JNull = ''None''"
| "py_str (JBool b) = (if b then ''True'' else ''False'')"
| "py_str (JInt n) = str_int n"
| "py_str (JStr s) = s"

text \<open>
  A list comprehension \<^verbatim>\<open>[x for x in data if cond(x)]\<close> whose condition can raise: the
  rows are visited in order and the first error ends the comprehension.
\<close>

fun comprehension :: "('a \<Rightarrow> error + bool) \<Rightarrow> 'a list \<Rightarrow> error + 'a list" where
  "comprehension cond [] = Inr []"
| "comprehension cond (x # xs) =
     (case cond x of
        Inl e \<Rightarrow> Inl e
      | Inr b \<Rightarrow>
          (case comprehension cond xs of
             Inl e \<Rightarrow> Inl e
           | Inr ys \<Rightarrow> Inr (if b then x # ys else ys)))"

text \<open>\<^verbatim>\<open>data or []\<close>: \<^verbatim>\<open>None\<close> (and the empty list) become the empty list.\<close>

definition or_empty :: "'a list option \<Rightarrow> 'a list" where
  "or_empty d = (case d of None \<Rightarrow> [] | Some xs \<Rightarrow> xs)"

subsection \<open>The reference date\<close>

text \<open>
  \<^verbatim>\<open>datetime.now().strftime("%Y-%m-%d")\<close>: the year on four digits, month and day on
  two, zero padded.
\<close>

record datetime =
  year :: nat
  month :: nat
  day :: nat

definition zfill :: "nat \<Rightarrow> string \<Rightarrow> string" where
  "zfill w s = replicate (w - length s) CHR ''0'' @ s"

definition strftime_ymd :: "datetime \<Rightarrow> string" where
  "strftime_ymd d =
     zfill 4 (str_nat (year d)) @ ''-'' @ zfill 2 (str_nat (month d)) @ ''-''
       @ zfill 2 (str_nat (day d))"

section \<open>The record store\<close>

text \<open>
  The Supabase client is the external collaborator. A table query is built from a table
  name, the selected columns and a list of predicates, and is then executed; a remote
  procedure is called by name with a dictionary of named parameters (an association list
  in the order of the source's dict literal). Each call either raises (\<open>Inl\<close>) or
  returns (\<open>Inr\<close>). \<^verbatim>\<open>execute()\<close> on a table query and on a remote procedure returns
  a response object, whose \<^verbatim>\<open>data\<close> (a list of rows or \<^verbatim>\<open>None\<close>) is the value
  under \<open>Inr\<close>. \<^verbatim>\<open>maybe_single().execute()\<close> is different: when no row matches, the
  client returns \<^verbatim>\<open>None\<close> in place of a response object, and otherwise a response
  whose \<^verbatim>\<open>data\<close> is the row. Its value under \<open>Inr\<close> is therefore an optional
  response, \<open>None\<close> for no response object at all, and the response is given by its
  \<^verbatim>\<open>data\<close>. Reading handlers see one snapshot of the store.
\<close>

datatype predicate = Eq string jval | Gte string jval | Like string string

record query =
  table :: string
  columns :: string
  predicates :: "predicate list"

type_synonym params = "(string \<times> jval) list"

type_synonym single_response = "row option"

record store =
  execute :: "query \<Rightarrow> error + row list option"
  maybe_single :: "query \<Rightarrow> error + single_response option"
  rpc :: "string \<Rightarrow> params \<Rightarrow> error + row list option"

definition from_select_eq :: "string \<Rightarrow> string \<Rightarrow> jval \<Rightarrow> query" where
  "from_select_eq t col v = \<lparr>table = t, columns = ''*'', predicates = [Eq col v]\<rparr>"

section \<open>Executive dashboard\<close>

record dashboard_summary =
  total_assigned :: nat
  hot_leads :: nat
  followups_today :: nat
  fresh :: nat
  bargainers :: nat

record dashboard_response =
  summary :: dashboard_summary

text \<open>The condition of the comprehension at lines 117-120 of \<^verbatim>\<open>main.py\<close>.\<close>

definition follow_up_is_today :: "string \<Rightarrow> row \<Rightarrow> bool" where
  "follow_up_is_today today x =
     (case x ''follow_up_at'' of
        None \<Rightarrow> False
      | Some v \<Rightarrow> truthy v \<and> prefix today (py_str v))"

definition get_dashboard :: "store \<Rightarrow> datetime \<Rightarrow> string \<Rightarrow> error + dashboard_response" where
  "get_dashboard st now executive_id =
     (case execute st (from_select_eq ''db_candidates'' ''executive_id'' (JStr executive_id)) of
        Inl e \<Rightarrow> Inl e
      | Inr result_data \<Rightarrow>
          (let data = or_empty result_data in
           case comprehension (\<lambda>x. py_ge_int (dict_get x ''lead_heat_score'' (JInt 0)) 70) data of
             Inl e \<Rightarrow> Inl e
           | Inr hot \<Rightarrow>
               (let fresh_rows = filter (\<lambda>x. x ''lead_status'' = Some (JStr ''fresh'')) data;
                    bargaining = filter (\<lambda>x. x ''lead_status'' = Some (JStr ''bargaining'')) data;
                    today = strftime_ymd now;
                    follow_up_today = filter (follow_up_is_today today) data
                in Inr \<lparr>summary =
                     \<lparr>total_assigned = length data,
                      hot_leads = length hot,
                      followups_today = length follow_up_today,
                      fresh = length fresh_rows,
                      bargainers = length bargaining\<rparr>\<rparr>)))"

section \<open>Executive performance\<close>

record performance_response =
  calls :: nat
  connected :: nat
  not_lifted :: nat
  offers_sent :: nat

text \<open>
  \<^verbatim>\<open>calls.data\<close> and \<^verbatim>\<open>offers.data\<close> are used as they come: iterating over or
  measuring \<^verbatim>\<open>None\<close> raises \<^verbatim>\<open>TypeError\<close>, and \<^verbatim>\<open>c["action_type"]\<close> raises
  \<^verbatim>\<open>KeyError\<close> on a row without that key.
\<close>

definition action_type_is :: "string \<Rightarrow> row \<Rightarrow> error + bool" where
  "action_type_is a c =
     (case dict_item c ''action_type'' of Inl e \<Rightarrow> Inl e | Inr v \<Rightarrow> Inr (v = JStr a))"

definition exec_perf :: "store \<Rightarrow> string \<Rightarrow> error + performance_response" where
  "exec_perf st executive_id =
     (case execute st (from_select_eq ''db_call_logs'' ''executive_id'' (JStr executive_id)) of
        Inl e \<Rightarrow> Inl e
      | Inr calls_data \<Rightarrow>
     (case execute st (from_select_eq ''db_offers_sent'' ''executive_id'' (JStr executive_id)) of
        Inl e \<Rightarrow> Inl e
      | Inr offers_data \<Rightarrow>
     (case calls_data of
        None \<Rightarrow> Inl TypeError
      | Some cs \<Rightarrow>
     (case comprehension (action_type_is ''connected'') cs of
        Inl e \<Rightarrow> Inl e
      | Inr conn \<Rightarrow>
     (case comprehension (action_type_is ''not_lifted'') cs of
        Inl e \<Rightarrow> Inl e
      | Inr nl \<Rightarrow>
     (case offers_data of
        None \<Rightarrow> Inl TypeError
      | Some os \<Rightarrow>
          Inr \<lparr>calls = length cs, connected = length conn, not_lifted = length nl,
               offers_sent = length os\<rparr>))))))"

section \<open>Lead lists\<close>

subsection \<open>Sorting by newest\<close>

text \<open>
  \<^verbatim>\<open>sorted(leads, key=lambda x: x.get("created_at", ""), reverse=True)\<close>. CPython sorts
  with \<^verbatim>\<open>reverse=True\<close> by reversing the list, sorting it stably in ascending order of
  the keys and reversing the result. Keys are compared with \<^verbatim>\<open><\<close>, which is defined
  between two strings and between two numbers (a boolean counting as 0 or 1) and raises
  \<^verbatim>\<open>TypeError\<close> for every other pair, \<^verbatim>\<open>None\<close> against \<^verbatim>\<open>None\<close> included. A list
  of fewer than two elements is returned without any comparison; in a longer list every
  element is compared with another one, so the sort succeeds exactly when all keys are
  strings or all keys are numbers.
\<close>

fun is_str :: "jval \<Rightarrow> bool" where
  "is_str (JStr s) = True"
| "is_str v = False"

fun str_of :: "jval \<Rightarrow> string" where
  "str_of (JStr s) = s"
| "str_of v = []"

fun is_num :: "jval \<Rightarrow> bool" where
  "is_num (JInt n) = True"
| "is_num (JBool b) = True"
| "is_num v = False"

fun num_of :: "jval \<Rightarrow> int" where
  "num_of (JInt n) = n"
| "num_of (JBool b) = (if b then 1 else 0)"
| "num_of v = 0"

definition sorted_reverse :: "('a \<Rightarrow> jval) \<Rightarrow> 'a list \<Rightarrow> error + 'a list" where
  "sorted_reverse key xs =
     (if length xs \<le> 1 then Inr xs
      else if list_all (\<lambda>x. is_str (key x)) xs
        then Inr (rev (sort_key (\<lambda>x. str_of (key x)) (rev xs)))
      else if list_all (\<lambda>x. is_num (key x)) xs
        then Inr (rev (sort_key (\<lambda>x. num_of (key x)) (rev xs)))
      else Inl TypeError)"

definition created_at_key :: "row \<Rightarrow> jval" where
  "created_at_key x = dict_get x ''created_at'' (JStr [])"

definition sorted_newest :: "row list \<Rightarrow> error + row list" where
  "sorted_newest leads = sorted_reverse created_at_key leads"

subsection \<open>The simple lead list (GET)\<close>

record lead_list_response =
  executive_id :: string
  lead_count :: nat
  leads :: "row list"

definition add_predicate :: "query \<Rightarrow> predicate \<Rightarrow> query" where
  "add_predicate q p = q\<lparr>predicates := predicates q @ [p]\<rparr>"

text \<open>
  The query built at lines 144-159: \<^verbatim>\<open>if status:\<close> and \<^verbatim>\<open>if heat_min:\<close> test the
  truth value of the parameter, so \<^verbatim>\<open>None\<close>, the empty string and 0 add no predicate.
  The parameters \<^verbatim>\<open>status\<close> and \<^verbatim>\<open>sort\<close> of the handler are \<open>status_q\<close> and
  \<open>sort_q\<close> here, the plain names being constants.
\<close>

definition lead_list_query ::
  "datetime \<Rightarrow> string \<Rightarrow> string option \<Rightarrow> int option \<Rightarrow> string option \<Rightarrow> query" where
  "lead_list_query now eid status_q heat_min follow_up_due =
     (let q0 = from_select_eq ''db_candidates'' ''executive_id'' (JStr eid);
          q1 = (case status_q of
                  Some s \<Rightarrow> if s \<noteq> [] then add_predicate q0 (Eq ''lead_status'' (JStr s)) else q0
                | None \<Rightarrow> q0);
          q2 = (case heat_min of
                  Some h \<Rightarrow> if h \<noteq> 0 then add_predicate q1 (Gte ''lead_heat_score'' (JInt h)) else q1
                | None \<Rightarrow> q1);
          q3 = (if follow_up_due = Some ''today''
                then add_predicate q2 (Like ''follow_up_at'' (strftime_ymd now @ ''%''))
                else q2)
      in q3)"

definition lead_list_get ::
  "store \<Rightarrow> datetime \<Rightarrow> string \<Rightarrow> string option \<Rightarrow> int option \<Rightarrow> string option \<Rightarrow> string option
     \<Rightarrow> error + lead_list_response" where
  "lead_list_get st now eid status_q heat_min follow_up_due sort_q =
     (case execute st (lead_list_query now eid status_q heat_min follow_up_due) of
        Inl e \<Rightarrow> Inl e
      | Inr res_data \<Rightarrow>
          (case (if sort_q = Some ''newest'' then sorted_newest (or_empty res_data)
                 else Inr (or_empty res_data)) of
             Inl e \<Rightarrow> Inl e
           | Inr ls \<Rightarrow> Inr \<lparr>executive_id = eid, lead_count = length ls, leads = ls\<rparr>))"

subsection \<open>The filtered lead list (POST)\<close>

text \<open>
  The class \<^verbatim>\<open>FilterPayload\<close>. Its field \<^verbatim>\<open>executive_id\<close> is \<open>fp_executive_id\<close>
  here, since the response record has a field of that name.
\<close>

record FilterPayload =
  fp_executive_id :: string
  state :: "string option"
  category :: "string option"
  gender :: "string option"
  status :: "string option"
  bargain_type :: "string option"
  min_heat :: "int option"
  max_heat :: "int option"
  prospect_percent :: "int option"
  sort_by :: "string option"

text \<open>
  The instance built from a request body that gives \<^verbatim>\<open>executive_id\<close> only: every other
  field takes the default declared in the class (lines 31-39), which is \<^verbatim>\<open>None\<close> except
  for \<^verbatim>\<open>max_heat\<close>, whose default is 100.
\<close>

definition FilterPayload_defaults :: "string \<Rightarrow> FilterPayload" where
  "FilterPayload_defaults eid =
     \<lparr>fp_executive_id = eid, state = None, category = None, gender = None, status = None,
      bargain_type = None, min_heat = None, max_heat = Some 100, prospect_percent = None,
      sort_by = None\<rparr>"

definition opt_str :: "string option \<Rightarrow> jval" where
  "opt_str v = (case v of None \<Rightarrow> JNull | Some s \<Rightarrow> JStr s)"

definition opt_int :: "int option \<Rightarrow> jval" where
  "opt_int v = (case v of None \<Rightarrow> JNull | Some n \<Rightarrow> JInt n)"

text \<open>The parameter dictionary of lines 182-191.\<close>

definition get_leads_filtered_params :: "FilterPayload \<Rightarrow> params" where
  "get_leads_filtered_params payload =
     [(''p_executive_id'', JStr (fp_executive_id payload)),
      (''p_state'', opt_str (state payload)),
      (''p_category'', opt_str (category payload)),
      (''p_gender'', opt_str (gender payload)),
      (''p_status'', opt_str (status payload)),
      (''p_bargain'', opt_str (bargain_type payload)),
      (''p_min_heat'', opt_int (min_heat payload)),
      (''p_max_heat'', opt_int (max_heat payload))]"

definition lead_list_post :: "store \<Rightarrow> FilterPayload \<Rightarrow> error + lead_list_response" where
  "lead_list_post st payload =
     (case rpc st ''get_leads_filtered'' (get_leads_filtered_params payload) of
        Inl e \<Rightarrow> Inl e
      | Inr rpc_data \<Rightarrow>
          (case (if sort_by payload = Some ''newest'' then sorted_newest (or_empty rpc_data)
                 else Inr (or_empty rpc_data)) of
             Inl e \<Rightarrow> Inl e
           | Inr ls \<Rightarrow>
               Inr \<lparr>executive_id = fp_executive_id payload, lead_count = length ls, leads = ls\<rparr>))"

section \<open>Single-row lookups\<close>

text \<open>
  \<^verbatim>\<open>res.data or {}\<close>: when \<^verbatim>\<open>res\<close> is \<^verbatim>\<open>None\<close>, the attribute \<^verbatim>\<open>data\<close> does
  not exist and Python raises \<^verbatim>\<open>AttributeError\<close>; when \<^verbatim>\<open>res\<close> is a response, data
  that is \<^verbatim>\<open>None\<close> gives the empty dictionary.
\<close>

definition get_profile :: "store \<Rightarrow> string \<Rightarrow> error + row" where
  "get_profile st phone =
     (case maybe_single st (from_select_eq ''db_executives'' ''mobile'' (JStr phone)) of
        Inl e \<Rightarrow> Inl e
      | Inr None \<Rightarrow> Inl AttributeError
      | Inr (Some res_data) \<Rightarrow> Inr (case res_data of None \<Rightarrow> Map.empty | Some r \<Rightarrow> r))"

text \<open>
  The parameter \<^verbatim>\<open>id\<close> of \<^verbatim>\<open>lead_detail\<close> is \<open>cid\<close> here. The three calls run
  first; the response is then built from \<^verbatim>\<open>cand.data\<close>, which raises
  \<^verbatim>\<open>AttributeError\<close> when \<^verbatim>\<open>cand\<close> is \<^verbatim>\<open>None\<close>.
\<close>

record lead_detail_response =
  candidate :: "row option"
  timeline :: "row list option"
  offers :: "row list option"

definition lead_detail :: "store \<Rightarrow> int \<Rightarrow> error + lead_detail_response" where
  "lead_detail st cid =
     (case maybe_single st (from_select_eq ''db_candidates'' ''id'' (JInt cid)) of
        Inl e \<Rightarrow> Inl e
      | Inr cand \<Rightarrow>
     (case rpc st ''get_timeline'' [(''p_candidate_id'', JInt cid)] of
        Inl e \<Rightarrow> Inl e
      | Inr timeline_data \<Rightarrow>
     (case rpc st ''get_offers_for_candidate'' [(''p_candidate_id'', JInt cid)] of
        Inl e \<Rightarrow> Inl e
      | Inr offers_data \<Rightarrow>
     (case cand of
        None \<Rightarrow> Inl AttributeError
      | Some cand_data \<Rightarrow>
          Inr \<lparr>candidate = cand_data, timeline = timeline_data, offers = offers_data\<rparr>))))"

section \<open>Manager's view of an executive\<close>

record executive_info =
  name :: jval
  assigned_count :: nat

record manager_leads_response =
  executive :: executive_info
  ml_leads :: "row list"

text \<open>
  The key \<^verbatim>\<open>leads\<close> of the response is the field \<open>ml_leads\<close>. Both queries run
  first. The response is then built from \<^verbatim>\<open>exec_profile.data.get("name", "")\<close>: when
  \<^verbatim>\<open>exec_profile\<close> is \<^verbatim>\<open>None\<close> the attribute \<^verbatim>\<open>data\<close> does not exist, when its
  data is \<^verbatim>\<open>None\<close> the attribute \<^verbatim>\<open>get\<close> does not exist, and Python raises
  \<^verbatim>\<open>AttributeError\<close> in both cases.
\<close>

definition manager_leads :: "store \<Rightarrow> string \<Rightarrow> error + manager_leads_response" where
  "manager_leads st eid =
     (case maybe_single st (from_select_eq ''db_executives'' ''executive_id'' (JStr eid)) of
        Inl e \<Rightarrow> Inl e
      | Inr exec_profile \<Rightarrow>
     (case execute st (from_select_eq ''db_candidates'' ''executive_id'' (JStr eid)) of
        Inl e \<Rightarrow> Inl e
      | Inr leads_data \<Rightarrow>
     (case exec_profile of
        None \<Rightarrow> Inl AttributeError
      | Some None \<Rightarrow> Inl AttributeError
      | Some (Some prof) \<Rightarrow>
          Inr \<lparr>executive =
                 \<lparr>name = dict_get prof ''name'' (JStr []),
                  assigned_count = length (or_empty leads_data)\<rparr>,
               ml_leads = or_empty leads_data\<rparr>)))"

section \<open>Bulk assignment\<close>

text \<open>
  The assignment procedure changes the record store, so the store is threaded through the
  loop: a remote call takes the backend's state and gives the new state together with
  either the exception it raises or the data of its response. The model also keeps the
  list of the calls issued so far, in order.
\<close>

record BulkAssignPayload =
  assign_from :: string
  assign_to :: string
  candidate_ids :: "int list"
  reason :: "string option"

record bulk_assign_response =
  assigned :: nat

type_synonym rpc_call = "string \<times> params"

type_synonym 'b remote = "rpc_call \<Rightarrow> 'b \<Rightarrow> (error + row list option) \<times> 'b"

definition assign_lead_call :: "BulkAssignPayload \<Rightarrow> int \<Rightarrow> rpc_call" where
  "assign_lead_call payload cid =
     (''assign_lead'',
      [(''p_candidate_id'', JInt cid),
       (''p_assign_to'', JStr (assign_to payload)),
       (''p_assign_from'', JStr (assign_from payload)),
       (''p_reason'', opt_str (reason payload))])"

fun assign_loop ::
  "'b remote \<Rightarrow> BulkAssignPayload \<Rightarrow> int list \<Rightarrow> rpc_call list \<times> 'b
     \<Rightarrow> error option \<times> rpc_call list \<times> 'b" where
  "assign_loop remote payload [] (issued, b) = (None, issued, b)"
| "assign_loop remote payload (cid # cids) (issued, b) =
     (case remote (assign_lead_call payload cid) b of
        (Inl e, b') \<Rightarrow> (Some e, issued @ [assign_lead_call payload cid], b')
      | (Inr _, b') \<Rightarrow>
          assign_loop remote payload cids (issued @ [assign_lead_call payload cid], b'))"

definition assign_bulk ::
  "'b remote \<Rightarrow> BulkAssignPayload \<Rightarrow> rpc_call list \<times> 'b
     \<Rightarrow> (error + bulk_assign_response) \<times> rpc_call list \<times> 'b" where
  "assign_bulk remote payload w =
     (case assign_loop remote payload (candidate_ids payload) w of
        (Some e, w') \<Rightarrow> (Inl e, w')
      | (None, w') \<Rightarrow> (Inr \<lparr>assigned = length (candidate_ids payload)\<rparr>, w'))"

section \<open>Notions of the specification\<close>

text \<open>
  The heat score of a row as the specification counts it: the integer stored under
  \<^verbatim>\<open>lead_heat_score\<close>, and 0 for a row with no heat score.
\<close>

definition heat_score :: "row \<Rightarrow> int" where
  "heat_score x = (case x ''lead_heat_score'' of Some (JInt n) \<Rightarrow> n | _ \<Rightarrow> 0)"

text \<open>The heat score of the row is missing or a number, as the data model has it.\<close>

definition heat_score_numeric :: "row \<Rightarrow> bool" where
  "heat_score_numeric x = (case x ''lead_heat_score'' of None \<Rightarrow> True | Some v \<Rightarrow> is_num v)"

text \<open>The follow-up timestamp of the row is missing, null or the empty string.\<close>

definition no_follow_up :: "row \<Rightarrow> bool" where
  "no_follow_up x =
     (x ''follow_up_at'' = None \<or> x ''follow_up_at'' = Some JNull
        \<or> x ''follow_up_at'' = Some (JStr []))"

text \<open>The follow-up timestamp of the row, as a string, starts with the given date.\<close>

definition follow_up_starts_with :: "string \<Rightarrow> row \<Rightarrow> bool" where
  "follow_up_starts_with date x =
     (case x ''follow_up_at'' of None \<Rightarrow> False | Some v \<Rightarrow> prefix date (py_str v))"

text \<open>The creation timestamp of the row is missing or a string.\<close>

definition created_at_textual :: "row \<Rightarrow> bool" where
  "created_at_textual x = (case x ''created_at'' of None \<Rightarrow> True | Some v \<Rightarrow> is_str v)"

text \<open>The creation timestamp as a string, the empty string standing for a missing one.\<close>

definition created_at_str :: "row \<Rightarrow> string" where
  "created_at_str x = str_of (created_at_key x)"

text \<open>
  The state of the backend after the \<^verbatim>\<open>assign_lead\<close> calls for the given candidate
  ids, made one after the other from the given state.
\<close>

definition state_after :: "'b remote \<Rightarrow> BulkAssignPayload \<Rightarrow> 'b \<Rightarrow> int list \<Rightarrow> 'b" where
  "state_after remote payload b cids =
     foldl (\<lambda>s cid. snd (remote (assign_lead_call payload cid) s)) b cids"

section \<open>A sample record store\<close>

text \<open>
  A small in-memory collaborator, used for concrete instances: tables are lists of rows,
  a query returns the rows of its table that satisfy all its predicates, and a single-row
  lookup returns a response holding the one matching row, and \<^verbatim>\<open>None\<close> in place of a
  response when there is none.
\<close>

fun holds :: "predicate \<Rightarrow> row \<Rightarrow> bool" where
  "holds (Eq c v) r = (r c = Some v)"
| "holds (Gte c v) r =
     (case (r c, v) of (Some (JInt n), JInt k) \<Rightarrow> k \<le> n | _ \<Rightarrow> False)"
| "holds (Like c pat) r =
     (case r c of
        Some (JStr s) \<Rightarrow> pat \<noteq> [] \<and> last pat = CHR ''%'' \<and> prefix (butlast pat) s
      | _ \<Rightarrow> False)"

definition matching :: "(string \<Rightarrow> row list) \<Rightarrow> query \<Rightarrow> row list" where
  "matching tables q = filter (\<lambda>r. list_all (\<lambda>p. holds p r) (predicates q)) (tables (table q))"

definition mem_store :: "(string \<Rightarrow> row list) \<Rightarrow> (string \<Rightarrow> params \<Rightarrow> row list option) \<Rightarrow> store" where
  "mem_store tables procs =
     \<lparr>execute = (\<lambda>q. Inr (Some (matching tables q))),
      maybe_single = (\<lambda>q. case matching tables q of
                             [] \<Rightarrow> Inr None
                           | [r] \<Rightarrow> Inr (Some (Some r))
                           | _ \<Rightarrow> Inl (APIError ''more than one row'')),
      rpc = (\<lambda>n ps. Inr (procs n ps))\<rparr>"

definition sample_candidates :: "row list" where
  "sample_candidates =
     [[''id'' \<mapsto> JInt 10, ''executive_id'' \<mapsto> JStr ''E1'', ''lead_heat_score'' \<mapsto> JInt 80,
       ''lead_status'' \<mapsto> JStr ''fresh'', ''follow_up_at'' \<mapsto> JStr ''2026-11-04T09:30:00'',
       ''created_at'' \<mapsto> JStr ''2026-10-01T08:00:00''],
      [''id'' \<mapsto> JInt 11, ''executive_id'' \<mapsto> JStr ''E1'', ''lead_heat_score'' \<mapsto> JInt 50,
       ''lead_status'' \<mapsto> JStr ''bargaining'', ''follow_up_at'' \<mapsto> JNull,
       ''created_at'' \<mapsto> JStr ''2026-10-03T08:00:00''],
      [''id'' \<mapsto> JInt 12, ''executive_id'' \<mapsto> JStr ''E1'', ''lead_heat_score'' \<mapsto> JInt 90,
       ''lead_status'' \<mapsto> JStr ''fresh'', ''created_at'' \<mapsto> JStr ''2026-10-01T08:00:00'']]"

definition sample_calls :: "row list" where
  "sample_calls =
     [[''executive_id'' \<mapsto> JStr ''E1'', ''action_type'' \<mapsto> JStr ''connected''],
      [''executive_id'' \<mapsto> JStr ''E1'', ''candidate_id'' \<mapsto> JInt 11]]"

definition sample_tables :: "string \<Rightarrow> row list" where
  "sample_tables t =
     (if t = ''db_candidates'' then sample_candidates
      else if t = ''db_call_logs'' then sample_calls
      else [])"

definition sample_procs :: "string \<Rightarrow> params \<Rightarrow> row list option" where
  "sample_procs n ps = (if n = ''get_leads_filtered'' then Some sample_candidates else Some [])"

definition sample_store :: store where
  "sample_store = mem_store sample_tables sample_procs"

definition sample_now :: datetime where
  "sample_now = \<lparr>year = 2026, month = 11, day = 4\<rparr>"

text \<open>A remote whose \<^verbatim>\<open>assign_lead\<close> raises for one candidate id and succeeds for the
  others; the backend's state counts the assignments done.\<close>

definition remote_failing_on :: "int \<Rightarrow> nat remote" where
  "remote_failing_on bad c n =
     (if map_of (snd c) ''p_candidate_id'' = Some (JInt bad)
      then (Inl (APIError ''assign_lead failed''), n)
      else (Inr (Some []), Suc n))"

definition sample_bulk :: BulkAssignPayload where
  "sample_bulk =
     \<lparr>assign_from = ''A'', assign_to = ''B'', candidate_ids = [10, 11, 12], reason = None\<rparr>"

section \<open>Auxiliary facts\<close>

lemma comprehension_Inr:
  "comprehension c xs = Inr ys \<Longrightarrow>
     ys = filter (\<lambda>x. c x = Inr True) xs \<and> (\<forall>x\<in>set xs. \<exists>b. c x = Inr b)"
  by (induction xs arbitrary: ys) (auto split: sum.splits if_splits)

lemma comprehension_total:
  "\<forall>x\<in>set xs. \<exists>b. c x = Inr b \<Longrightarrow> comprehension c xs = Inr (filter (\<lambda>x. c x = Inr True) xs)"
  by (induction xs) (auto split: sum.splits)

lemma comprehension_Inl:
  "x \<in> set xs \<Longrightarrow> c x = Inl e \<Longrightarrow> \<exists>e'. comprehension c xs = Inl e'"
  by (induction xs) (auto split: sum.splits)

lemma length_zfill: "w \<le> length (zfill w s)"
  by (simp add: zfill_def)

lemma length_strftime_ymd: "10 \<le> length (strftime_ymd d)"
proof -
  have "4 \<le> length (zfill 4 (str_nat (year d)))" "2 \<le> length (zfill 2 (str_nat (month d)))"
    "2 \<le> length (zfill 2 (str_nat (day d)))"
    by (rule length_zfill)+
  then show ?thesis by (simp add: strftime_ymd_def)
qed

lemma falsy_short: "\<not> truthy v \<Longrightarrow> length (py_str v) < 10"
  by (cases v) (auto simp: str_int_def str_nat.simps)

lemma follow_up_is_today_iff:
  "follow_up_is_today (strftime_ymd d) x \<longleftrightarrow> follow_up_starts_with (strftime_ymd d) x"
proof (cases "x ''follow_up_at''")
  case None
  then show ?thesis by (simp add: follow_up_is_today_def follow_up_starts_with_def)
next
  case (Some v)
  have "truthy v" if "prefix (strftime_ymd d) (py_str v)"
  proof (rule ccontr)
    assume "\<not> truthy v"
    then have "length (py_str v) < 10" by (rule falsy_short)
    moreover have "length (strftime_ymd d) \<le> length (py_str v)"
      using that by (rule prefix_length_le)
    ultimately show False using length_strftime_ymd [of d] by simp
  qed
  with Some show ?thesis by (auto simp: follow_up_is_today_def follow_up_starts_with_def)
qed


lemma hot_cond_numeric:
  "(\<exists>b. py_ge_int (dict_get x ''lead_heat_score'' (JInt 0)) 70 = Inr b) \<longleftrightarrow> heat_score_numeric x"
  by (cases "x ''lead_heat_score''"; cases "the (x ''lead_heat_score'')")
     (auto simp: dict_get_def heat_score_numeric_def)

lemma hot_cond_True:
  "py_ge_int (dict_get x ''lead_heat_score'' (JInt 0)) 70 = Inr True \<longleftrightarrow>
     heat_score_numeric x \<and> 70 \<le> heat_score x"
  by (cases "x ''lead_heat_score''"; cases "the (x ''lead_heat_score'')")
     (auto simp: dict_get_def heat_score_numeric_def heat_score_def)

lemma hot_comprehension:
  "comprehension (\<lambda>x. py_ge_int (dict_get x ''lead_heat_score'' (JInt 0)) 70) xs =
     (if list_all heat_score_numeric xs then Inr (filter (\<lambda>x. 70 \<le> heat_score x) xs)
      else Inl TypeError)"
proof (induction xs)
  case Nil
  then show ?case by simp
next
  case (Cons x xs)
  show ?case
  proof (cases "x ''lead_heat_score''")
    case None
    then show ?thesis using Cons
      by (simp add: dict_get_def heat_score_numeric_def heat_score_def)
  next
    case (Some v)
    then show ?thesis using Cons
      by (cases v) (simp_all add: dict_get_def heat_score_numeric_def heat_score_def)
  qed
qed

lemma get_dashboard_eq:
  assumes "execute st (from_select_eq ''db_candidates'' ''executive_id'' (JStr eid)) = Inr d"
  shows "get_dashboard st now eid =
     (if list_all heat_score_numeric (or_empty d)
      then Inr \<lparr>summary =
             \<lparr>total_assigned = length (or_empty d),
              hot_leads = length (filter (\<lambda>x. 70 \<le> heat_score x) (or_empty d)),
              followups_today =
                length (filter (follow_up_is_today (strftime_ymd now)) (or_empty d)),
              fresh = length (filter (\<lambda>x. x ''lead_status'' = Some (JStr ''fresh'')) (or_empty d)),
              bargainers =
                length (filter (\<lambda>x. x ''lead_status'' = Some (JStr ''bargaining'')) (or_empty d))\<rparr>\<rparr>
      else Inl TypeError)"
  using assms by (simp add: get_dashboard_def hot_comprehension Let_def)


lemma filter_update_drop:
  assumes "i < length xs" "P (xs ! i)" "\<not> P y"
  shows "Suc (length (filter P (xs[i := y]))) = length (filter P xs)"
proof -
  have a: "xs = take i xs @ xs ! i # drop (Suc i) xs"
    using assms(1) by (simp add: id_take_nth_drop)
  have b: "xs[i := y] = take i xs @ y # drop (Suc i) xs"
    using assms(1) by (simp add: upd_conv_take_nth_drop)
  have "length (filter P xs) = length (filter P (take i xs @ xs ! i # drop (Suc i) xs))"
    using a by simp
  then show ?thesis using assms(2,3) by (simp add: b)
qed

lemma list_all_update: "list_all P xs \<Longrightarrow> P y \<Longrightarrow> list_all P (xs[i := y])"
  by (metis (full_types) insertE list_all_iff set_update_subset_insert subsetD)

lemma heat_score_numeric_upd:
  "heat_score_numeric x \<Longrightarrow> heat_score_numeric (x(''follow_up_at'' \<mapsto> v))"
  by (simp add: heat_score_numeric_def)

lemma no_follow_up_not_today: "no_follow_up x \<Longrightarrow> \<not> follow_up_is_today today x"
  by (auto simp: no_follow_up_def follow_up_is_today_def)

lemma filter_filter_absorb:
  "(\<And>x. P x \<Longrightarrow> Q x) \<Longrightarrow> filter P (filter Q xs) = filter P xs"
  by (induction xs) auto

lemma sample_candidates_query:
  "execute sample_store (from_select_eq ''db_candidates'' ''executive_id'' (JStr ''E1''))
     = Inr (Some sample_candidates)"
  by (simp add: sample_store_def mem_store_def matching_def from_select_eq_def sample_tables_def
      sample_candidates_def)

section \<open>The dashboard summary\<close>

text \<open>
  Claim C1. Whatever rows the record store delivers for the executive, a summary returned
  by the dashboard handler has \<^verbatim>\<open>total_assigned\<close> equal to the number of rows,
  \<^verbatim>\<open>hot_leads\<close> equal to the number of rows whose heat score is at least 70 (a row with
  no heat score counting as 0), \<^verbatim>\<open>fresh\<close> equal to the number of rows of status
  \<^verbatim>\<open>fresh\<close> and \<^verbatim>\<open>bargainers\<close> equal to the number of rows of status
  \<^verbatim>\<open>bargaining\<close>; and a summary is returned whenever every heat score is missing or a
  number.
\<close>

theorem dashboard_counts:
  assumes "execute st (from_select_eq ''db_candidates'' ''executive_id'' (JStr eid)) = Inr d"
  shows "(list_all heat_score_numeric (or_empty d) \<longrightarrow> (\<exists>resp. get_dashboard st now eid = Inr resp)) \<and>
         (\<forall>resp. get_dashboard st now eid = Inr resp \<longrightarrow>
            total_assigned (summary resp) = length (or_empty d) \<and>
            hot_leads (summary resp) = length (filter (\<lambda>x. 70 \<le> heat_score x) (or_empty d)) \<and>
            fresh (summary resp) =
              length (filter (\<lambda>x. x ''lead_status'' = Some (JStr ''fresh'')) (or_empty d)) \<and>
            bargainers (summary resp) =
              length (filter (\<lambda>x. x ''lead_status'' = Some (JStr ''bargaining'')) (or_empty d)))"
  using get_dashboard_eq [OF assms, of now] by (auto split: if_splits)

theorem dashboard_counts_witness:
  "execute sample_store (from_select_eq ''db_candidates'' ''executive_id'' (JStr ''E1''))
     = Inr (Some sample_candidates) \<and>
   list_all heat_score_numeric sample_candidates \<and>
   (\<exists>resp. get_dashboard sample_store sample_now ''E1'' = Inr resp \<and>
      total_assigned (summary resp) = 3 \<and> hot_leads (summary resp) = 2 \<and>
      fresh (summary resp) = 2 \<and> bargainers (summary resp) = 1)"
proof -
  have n: "list_all heat_score_numeric sample_candidates"
    by (simp add: sample_candidates_def heat_score_numeric_def)
  from dashboard_counts [OF sample_candidates_query, of sample_now] n
  obtain resp where r: "get_dashboard sample_store sample_now ''E1'' = Inr resp"
    by (auto simp: or_empty_def)
  from dashboard_counts [OF sample_candidates_query, of sample_now] r
  have "total_assigned (summary resp) = length sample_candidates \<and>
    hot_leads (summary resp) = length (filter (\<lambda>x. 70 \<le> heat_score x) sample_candidates) \<and>
    fresh (summary resp) =
      length (filter (\<lambda>x. x ''lead_status'' = Some (JStr ''fresh'')) sample_candidates) \<and>
    bargainers (summary resp) =
      length (filter (\<lambda>x. x ''lead_status'' = Some (JStr ''bargaining'')) sample_candidates)"
    by (simp add: or_empty_def)
  then have "total_assigned (summary resp) = 3 \<and> hot_leads (summary resp) = 2 \<and>
      fresh (summary resp) = 2 \<and> bargainers (summary resp) = 1"
    by (simp add: sample_candidates_def heat_score_def)
  with r n sample_candidates_query show ?thesis by blast
qed

text \<open>
  Claim C3. When the record store delivers no rows, the dashboard summary is all zeros
  and the performance summary is all zeros.
\<close>

theorem empty_rows_all_zero:
  "(execute st (from_select_eq ''db_candidates'' ''executive_id'' (JStr eid)) = Inr (Some []) \<longrightarrow>
      get_dashboard st now eid =
        Inr \<lparr>summary = \<lparr>total_assigned = 0, hot_leads = 0, followups_today = 0, fresh = 0,
                         bargainers = 0\<rparr>\<rparr>) \<and>
   (execute st (from_select_eq ''db_call_logs'' ''executive_id'' (JStr eid)) = Inr (Some []) \<and>
    execute st (from_select_eq ''db_offers_sent'' ''executive_id'' (JStr eid)) = Inr (Some []) \<longrightarrow>
      exec_perf st eid = Inr \<lparr>calls = 0, connected = 0, not_lifted = 0, offers_sent = 0\<rparr>)"
  by (simp add: get_dashboard_def exec_perf_def or_empty_def)

theorem empty_rows_all_zero_witness:
  "execute sample_store (from_select_eq ''db_candidates'' ''executive_id'' (JStr ''E9'')) = Inr (Some []) \<and>
   execute sample_store (from_select_eq ''db_call_logs'' ''executive_id'' (JStr ''E9'')) = Inr (Some []) \<and>
   execute sample_store (from_select_eq ''db_offers_sent'' ''executive_id'' (JStr ''E9'')) = Inr (Some []) \<and>
   get_dashboard sample_store sample_now ''E9'' =
        Inr \<lparr>summary = \<lparr>total_assigned = 0, hot_leads = 0, followups_today = 0, fresh = 0,
                         bargainers = 0\<rparr>\<rparr> \<and>
   exec_perf sample_store ''E9'' = Inr \<lparr>calls = 0, connected = 0, not_lifted = 0, offers_sent = 0\<rparr>"
proof -
  have a: "execute sample_store (from_select_eq ''db_candidates'' ''executive_id'' (JStr ''E9'')) = Inr (Some [])"
    by (simp add: sample_store_def mem_store_def matching_def from_select_eq_def sample_tables_def
      sample_candidates_def)
  have b: "execute sample_store (from_select_eq ''db_call_logs'' ''executive_id'' (JStr ''E9'')) = Inr (Some [])"
    by (simp add: sample_store_def mem_store_def matching_def from_select_eq_def sample_tables_def
      sample_calls_def)
  have c: "execute sample_store (from_select_eq ''db_offers_sent'' ''executive_id'' (JStr ''E9'')) = Inr (Some [])"
    by (simp add: sample_store_def mem_store_def matching_def from_select_eq_def sample_tables_def)
  show ?thesis
    using empty_rows_all_zero [of sample_store "''E9''" sample_now] a b c by simp
qed

lemma sample_today: "strftime_ymd sample_now = ''2026-11-04''"
  by (simp add: sample_now_def strftime_ymd_def zfill_def str_nat.simps digit_char_def)

lemma sample_dashboard:
  "get_dashboard sample_store sample_now ''E1'' =
     Inr \<lparr>summary = \<lparr>total_assigned = 3, hot_leads = 2, followups_today = 1, fresh = 2,
                      bargainers = 1\<rparr>\<rparr>"
  by (simp add: get_dashboard_eq [OF sample_candidates_query] or_empty_def sample_today)
     (simp add: sample_candidates_def heat_score_numeric_def heat_score_def
        follow_up_is_today_def)

text \<open>
  Claim C4. In a summary the dashboard handler returns, \<^verbatim>\<open>followups_today\<close> is the
  number of rows whose follow-up timestamp, as a string, starts with the reference date.
  Replacing the follow-up timestamp of a counted row by a string that does not start
  with the reference date lowers the count by one, and the rows whose follow-up
  timestamp is missing, null or empty contribute nothing: without them the count is the
  same.
\<close>

theorem followups_today_prefix_match:
  assumes "execute st (from_select_eq ''db_candidates'' ''executive_id'' (JStr eid)) = Inr d"
      and "get_dashboard st now eid = Inr resp"
  shows "followups_today (summary resp) =
           length (filter (follow_up_starts_with (strftime_ymd now)) (or_empty d)) \<and>
         (\<forall>i s st'. i < length (or_empty d) \<and>
              follow_up_starts_with (strftime_ymd now) (or_empty d ! i) \<and>
              \<not> prefix (strftime_ymd now) s \<and>
              execute st' (from_select_eq ''db_candidates'' ''executive_id'' (JStr eid)) =
                Inr (Some ((or_empty d)[i := (or_empty d ! i)(''follow_up_at'' \<mapsto> JStr s)])) \<longrightarrow>
              (\<exists>resp'. get_dashboard st' now eid = Inr resp' \<and>
                 Suc (followups_today (summary resp')) = followups_today (summary resp))) \<and>
         (\<forall>st'. execute st' (from_select_eq ''db_candidates'' ''executive_id'' (JStr eid)) =
                Inr (Some (filter (\<lambda>x. \<not> no_follow_up x) (or_empty d))) \<longrightarrow>
              (\<exists>resp'. get_dashboard st' now eid = Inr resp' \<and>
                 followups_today (summary resp') = followups_today (summary resp)))"
proof -
  let ?rows = "or_empty d" and ?today = "strftime_ymd now"
  have same: "follow_up_is_today ?today = follow_up_starts_with ?today"
    by (rule ext) (rule follow_up_is_today_iff)
  from assms have num: "list_all heat_score_numeric ?rows"
    using get_dashboard_eq [OF assms(1), of now] by (auto split: if_splits)
  from assms have cnt: "followups_today (summary resp) =
      length (filter (follow_up_starts_with ?today) ?rows)"
    using get_dashboard_eq [OF assms(1), of now] by (auto simp: same split: if_splits)
  have B: "\<exists>resp'. get_dashboard st' now eid = Inr resp' \<and>
                 Suc (followups_today (summary resp')) = followups_today (summary resp)"
    if i: "i < length ?rows" and t: "follow_up_starts_with ?today (?rows ! i)"
      and s: "\<not> prefix ?today s"
      and e: "execute st' (from_select_eq ''db_candidates'' ''executive_id'' (JStr eid)) =
                Inr (Some (?rows[i := (?rows ! i)(''follow_up_at'' \<mapsto> JStr s)]))"
    for i s st'
  proof -
    let ?y = "(?rows ! i)(''follow_up_at'' \<mapsto> JStr s)"
    have "heat_score_numeric (?rows ! i)"
      using num i by (simp add: list_all_length)
    then have "list_all heat_score_numeric (?rows[i := ?y])"
      using num by (intro list_all_update heat_score_numeric_upd)
    moreover have "\<not> follow_up_starts_with ?today ?y"
      using s by (simp add: follow_up_starts_with_def)
    then have "Suc (length (filter (follow_up_starts_with ?today) (?rows[i := ?y]))) =
        length (filter (follow_up_starts_with ?today) ?rows)"
      using i t by (intro filter_update_drop)
    ultimately show ?thesis
      using get_dashboard_eq [OF e, of now] cnt by (simp add: or_empty_def same)
  qed
  have C: "\<exists>resp'. get_dashboard st' now eid = Inr resp' \<and>
                 followups_today (summary resp') = followups_today (summary resp)"
    if e: "execute st' (from_select_eq ''db_candidates'' ''executive_id'' (JStr eid)) =
                Inr (Some (filter (\<lambda>x. \<not> no_follow_up x) ?rows))"
    for st'
  proof -
    have "list_all heat_score_numeric (filter (\<lambda>x. \<not> no_follow_up x) ?rows)"
      using num by (simp add: list_all_iff)
    moreover have "filter (follow_up_is_today ?today) (filter (\<lambda>x. \<not> no_follow_up x) ?rows) =
        filter (follow_up_is_today ?today) ?rows"
      by (rule filter_filter_absorb) (use no_follow_up_not_today in blast)
    ultimately show ?thesis
      using get_dashboard_eq [OF e, of now] cnt by (simp add: or_empty_def same)
  qed
  from cnt B C show ?thesis by blast
qed

theorem followups_today_prefix_match_witness:
  "execute sample_store (from_select_eq ''db_candidates'' ''executive_id'' (JStr ''E1''))
     = Inr (Some sample_candidates) \<and>
   get_dashboard sample_store sample_now ''E1'' =
     Inr \<lparr>summary = \<lparr>total_assigned = 3, hot_leads = 2, followups_today = 1, fresh = 2,
                      bargainers = 1\<rparr>\<rparr> \<and>
   length (filter (follow_up_starts_with (strftime_ymd sample_now)) sample_candidates) = 1 \<and>
   follow_up_starts_with (strftime_ymd sample_now) (sample_candidates ! 0) \<and>
   \<not> prefix (strftime_ymd sample_now) ''2026-11-05T09:30:00'' \<and>
   (\<exists>resp'. get_dashboard
       (mem_store (\<lambda>t. sample_candidates[0 := (sample_candidates ! 0)
           (''follow_up_at'' \<mapsto> JStr ''2026-11-05T09:30:00'')]) sample_procs)
       sample_now ''E1'' = Inr resp' \<and> followups_today (summary resp') = 0)"
proof -
  let ?upd = "sample_candidates[0 := (sample_candidates ! 0)
           (''follow_up_at'' \<mapsto> JStr ''2026-11-05T09:30:00'')]"
  let ?st' = "mem_store (\<lambda>t. ?upd) sample_procs"
  note inst = followups_today_prefix_match [OF sample_candidates_query sample_dashboard]
  have one: "length (filter (follow_up_starts_with (strftime_ymd sample_now)) sample_candidates) = 1"
    using inst by (simp add: or_empty_def)
  have t: "follow_up_starts_with (strftime_ymd sample_now) (sample_candidates ! 0)"
    by (simp add: sample_today follow_up_starts_with_def sample_candidates_def)
  have s: "\<not> prefix (strftime_ymd sample_now) ''2026-11-05T09:30:00''"
    by (simp add: sample_today)
  have e: "execute ?st' (from_select_eq ''db_candidates'' ''executive_id'' (JStr ''E1''))
      = Inr (Some ?upd)"
    by (simp add: mem_store_def matching_def from_select_eq_def sample_candidates_def)
  have i: "0 < length (or_empty (Some sample_candidates))"
    by (simp add: or_empty_def sample_candidates_def)
  have "\<exists>resp'. get_dashboard ?st' sample_now ''E1'' = Inr resp' \<and>
          Suc (followups_today (summary resp')) =
            followups_today (summary \<lparr>summary = \<lparr>total_assigned = 3, hot_leads = 2,
              followups_today = 1, fresh = 2, bargainers = 1\<rparr>\<rparr>)"
    using conjunct1 [OF conjunct2 [OF inst], rule_format, of 0 "''2026-11-05T09:30:00''" ?st']
      i t s e by (simp add: or_empty_def)
  then have "\<exists>resp'. get_dashboard ?st' sample_now ''E1'' = Inr resp' \<and>
          followups_today (summary resp') = 0"
    by auto
  with sample_candidates_query sample_dashboard one t s show ?thesis by blast
qed

section \<open>The performance summary\<close>

lemma sample_calls_query:
  "execute sample_store (from_select_eq ''db_call_logs'' ''executive_id'' (JStr ''E1''))
     = Inr (Some sample_calls)"
  by (simp add: sample_store_def mem_store_def matching_def from_select_eq_def sample_tables_def
      sample_calls_def)

lemma sample_offers_query:
  "execute sample_store (from_select_eq ''db_offers_sent'' ''executive_id'' (JStr ''E1''))
     = Inr (Some [])"
  by (simp add: sample_store_def mem_store_def matching_def from_select_eq_def sample_tables_def)

text \<open>
  Claim C2 says that a call-log row without \<^verbatim>\<open>action_type\<close> is counted in neither
  category and never causes an error. The dashboard reads its fields with
  \<^verbatim>\<open>x.get\<close>, but the performance handler subscripts \<^verbatim>\<open>c["action_type"]\<close>: on the
  sample call log, whose second row has no \<^verbatim>\<open>action_type\<close>, it raises
  \<^verbatim>\<open>KeyError\<close> instead of returning the counts.
\<close>

theorem exec_perf_missing_action_type:
  "exec_perf sample_store ''E1'' = Inl (KeyError ''action_type'')"
  by (simp add: exec_perf_def sample_calls_query sample_offers_query)
     (simp add: sample_calls_def action_type_is_def dict_item_def)

section \<open>Lookups that find no row\<close>

lemma sample_no_executive:
  "maybe_single sample_store (from_select_eq ''db_executives'' c v) = Inr None"
  by (simp add: sample_store_def mem_store_def matching_def from_select_eq_def sample_tables_def)

lemma sample_no_candidate:
  "maybe_single sample_store (from_select_eq ''db_candidates'' ''id'' (JInt 99)) = Inr None"
  by (simp add: sample_store_def mem_store_def matching_def from_select_eq_def sample_tables_def
      sample_candidates_def)

lemma sample_rpc_empty:
  "n \<noteq> ''get_leads_filtered'' \<Longrightarrow> rpc sample_store n ps = Inr (Some [])"
  by (simp add: sample_store_def mem_store_def sample_procs_def)

lemma get_profile_no_response:
  "maybe_single st (from_select_eq ''db_executives'' ''mobile'' (JStr phone)) = Inr None \<Longrightarrow>
     get_profile st phone = Inl AttributeError"
  by (simp add: get_profile_def)

lemma get_profile_no_data:
  "maybe_single st (from_select_eq ''db_executives'' ''mobile'' (JStr phone)) = Inr (Some None) \<Longrightarrow>
     get_profile st phone = Inr Map.empty"
  by (simp add: get_profile_def)

lemma lead_detail_no_response:
  "maybe_single st (from_select_eq ''db_candidates'' ''id'' (JInt cid)) = Inr None \<Longrightarrow>
     \<exists>e. lead_detail st cid = Inl e"
  by (auto simp: lead_detail_def split: sum.splits)

text \<open>
  Claim C8 says that a profile lookup by a phone number of no executive returns an empty
  object, and a lead-detail lookup by an id of no candidate a null candidate, rather
  than failing. On no match the client's \<^verbatim>\<open>maybe_single().execute()\<close> returns
  \<^verbatim>\<open>None\<close>, so \<^verbatim>\<open>res.data or {}\<close> and \<^verbatim>\<open>cand.data\<close> read an attribute of
  \<^verbatim>\<open>None\<close>: on the sample store, which has no executive and no candidate 99, both
  handlers raise \<^verbatim>\<open>AttributeError\<close>.
\<close>

theorem single_lookups_fail_when_not_found:
  "maybe_single sample_store (from_select_eq ''db_executives'' ''mobile'' (JStr ''5550100'')) = Inr None \<and>
   get_profile sample_store ''5550100'' = Inl AttributeError \<and>
   maybe_single sample_store (from_select_eq ''db_candidates'' ''id'' (JInt 99)) = Inr None \<and>
   rpc sample_store ''get_timeline'' [(''p_candidate_id'', JInt 99)] = Inr (Some []) \<and>
   rpc sample_store ''get_offers_for_candidate'' [(''p_candidate_id'', JInt 99)] = Inr (Some []) \<and>
   lead_detail sample_store 99 = Inl AttributeError"
  by (simp add: get_profile_def lead_detail_def sample_no_executive sample_no_candidate
      sample_rpc_empty)

text \<open>
  Claim C10. When the profile lookup of the manager's executive view finds no row, the
  handler never returns its documented shape: whatever the candidate query delivers, the
  access to the name of the absent profile raises \<^verbatim>\<open>AttributeError\<close>.
\<close>

theorem manager_leads_absent_profile:
  assumes "maybe_single st (from_select_eq ''db_executives'' ''executive_id'' (JStr eid)) = Inr None"
  shows "(\<exists>e. manager_leads st eid = Inl e) \<and>
         (\<forall>d. execute st (from_select_eq ''db_candidates'' ''executive_id'' (JStr eid)) = Inr d \<longrightarrow>
              manager_leads st eid = Inl AttributeError)"
  using assms by (auto simp: manager_leads_def split: sum.splits)

theorem manager_leads_absent_profile_witness:
  "maybe_single sample_store (from_select_eq ''db_executives'' ''executive_id'' (JStr ''E1'')) = Inr None \<and>
   execute sample_store (from_select_eq ''db_candidates'' ''executive_id'' (JStr ''E1''))
     = Inr (Some sample_candidates) \<and>
   manager_leads sample_store ''E1'' = Inl AttributeError"
  using manager_leads_absent_profile [OF sample_no_executive, of "''E1''"]
    sample_no_executive [of "''executive_id''" "JStr ''E1''"] sample_candidates_query
  by simp

section \<open>Predicates forwarded by the lead lists\<close>

lemma sample_lead_query_plain:
  "lead_list_query sample_now ''E1'' None None None =
     from_select_eq ''db_candidates'' ''executive_id'' (JStr ''E1'')"
  by (simp add: lead_list_query_def)

text \<open>
  Claim C9. In the simple lead list a \<^verbatim>\<open>heat_min\<close> of 0 and an empty \<^verbatim>\<open>status\<close> are
  treated as if the parameter were absent: the query built is the same, it carries no
  status-equality and no heat-score-minimum predicate, and the handler's result is that
  of the request without the parameter.
\<close>

theorem falsy_filters_unset:
  "lead_list_query now eid (Some []) hm fu = lead_list_query now eid None hm fu \<and>
   lead_list_query now eid sq (Some 0) fu = lead_list_query now eid sq None fu \<and>
   lead_list_get st now eid (Some []) hm fu so = lead_list_get st now eid None hm fu so \<and>
   lead_list_get st now eid sq (Some 0) fu so = lead_list_get st now eid sq None fu so \<and>
   (sq = None \<or> sq = Some [] \<longrightarrow>
      (\<forall>v. Eq ''lead_status'' v \<notin> set (predicates (lead_list_query now eid sq hm fu)))) \<and>
   (hm = None \<or> hm = Some 0 \<longrightarrow>
      (\<forall>v. Gte ''lead_heat_score'' v \<notin> set (predicates (lead_list_query now eid sq hm fu))))"
  by (auto simp: lead_list_query_def lead_list_get_def Let_def add_predicate_def
      from_select_eq_def split: option.splits)

theorem falsy_filters_unset_witness:
  "lead_list_get sample_store sample_now ''E1'' (Some []) (Some 0) None None =
     Inr \<lparr>executive_id = ''E1'', lead_count = 3, leads = sample_candidates\<rparr> \<and>
   lead_list_get sample_store sample_now ''E1'' None None None None =
     Inr \<lparr>executive_id = ''E1'', lead_count = 3, leads = sample_candidates\<rparr> \<and>
   predicates (lead_list_query sample_now ''E1'' (Some []) (Some 0) None) =
     [Eq ''executive_id'' (JStr ''E1'')]"
proof -
  have a: "lead_list_get sample_store sample_now ''E1'' None None None None =
     Inr \<lparr>executive_id = ''E1'', lead_count = 3, leads = sample_candidates\<rparr>"
    by (simp add: lead_list_get_def sample_lead_query_plain sample_candidates_query or_empty_def)
       (simp add: sample_candidates_def)
  have b: "lead_list_get sample_store sample_now ''E1'' (Some []) (Some 0) None None =
      lead_list_get sample_store sample_now ''E1'' None None None None"
    using falsy_filters_unset [of sample_now "''E1''" "Some 0" None "Some []" sample_store None]
      falsy_filters_unset [of sample_now "''E1''" None None None sample_store None]
    by simp
  have c: "predicates (lead_list_query sample_now ''E1'' (Some []) (Some 0) None) =
     [Eq ''executive_id'' (JStr ''E1'')]"
    by (simp add: lead_list_query_def from_select_eq_def)
  from a b c show ?thesis by simp
qed

text \<open>
  Claim C6 says that a filter request with every optional field unset forwards
  "no constraint" for each predicate. The field \<^verbatim>\<open>max_heat\<close> has the default 100, so
  the parameter \<^verbatim>\<open>p_max_heat\<close> forwarded is 100 and not null.
\<close>

theorem unset_filter_max_heat_counterexample:
  "map_of (get_leads_filtered_params (FilterPayload_defaults ''E1'')) ''p_max_heat'' \<noteq> Some JNull"
  by (simp add: get_leads_filtered_params_def FilterPayload_defaults_def opt_int_def opt_str_def)

text \<open>
  Claim C6, amended. For a filter request with every optional field unset, the parameters
  forwarded to \<^verbatim>\<open>get_leads_filtered\<close> are the executive id, null for state, category,
  gender, status, bargain type and minimal heat, and the default 100 for maximal heat; no
  sort directive is forwarded, and the handler returns the rows of the remote procedure
  in the order delivered.
\<close>

theorem unset_filter_forwarded_params:
  "get_leads_filtered_params (FilterPayload_defaults eid) =
     [(''p_executive_id'', JStr eid), (''p_state'', JNull), (''p_category'', JNull),
      (''p_gender'', JNull), (''p_status'', JNull), (''p_bargain'', JNull),
      (''p_min_heat'', JNull), (''p_max_heat'', JInt 100)] \<and>
   (rpc st ''get_leads_filtered'' (get_leads_filtered_params (FilterPayload_defaults eid)) = Inr d \<longrightarrow>
      lead_list_post st (FilterPayload_defaults eid) =
        Inr \<lparr>executive_id = eid, lead_count = length (or_empty d), leads = or_empty d\<rparr>)"
  by (simp add: get_leads_filtered_params_def FilterPayload_defaults_def opt_int_def opt_str_def
      lead_list_post_def)

theorem unset_filter_forwarded_params_witness:
  "rpc sample_store ''get_leads_filtered''
      (get_leads_filtered_params (FilterPayload_defaults ''E1'')) = Inr (Some sample_candidates) \<and>
   map_of (get_leads_filtered_params (FilterPayload_defaults ''E1'')) ''p_max_heat'' = Some (JInt 100) \<and>
   map_of (get_leads_filtered_params (FilterPayload_defaults ''E1'')) ''p_min_heat'' = Some JNull \<and>
   lead_list_post sample_store (FilterPayload_defaults ''E1'') =
     Inr \<lparr>executive_id = ''E1'', lead_count = length sample_candidates, leads = sample_candidates\<rparr>"
proof -
  have r: "rpc sample_store ''get_leads_filtered''
      (get_leads_filtered_params (FilterPayload_defaults ''E1'')) = Inr (Some sample_candidates)"
    by (simp add: sample_store_def mem_store_def sample_procs_def)
  show ?thesis
    using unset_filter_forwarded_params [of "''E1''" sample_store "Some sample_candidates"] r
    by (simp add: or_empty_def)
qed

section \<open>Bulk assignment: the calls issued and the count returned\<close>

lemma assign_loop_calls:
  "assign_loop remote p ids (issued, b) = (r, issued', b') \<Longrightarrow>
     (r = None \<longrightarrow> issued' = issued @ map (assign_lead_call p) ids) \<and>
     (\<forall>e. r = Some e \<longrightarrow>
        (\<exists>k<length ids. issued' = issued @ map (assign_lead_call p) (take (Suc k) ids) \<and>
           (\<exists>b0. fst (remote (assign_lead_call p (ids ! k)) b0) = Inl e)))"
proof (induction ids arbitrary: issued b)
  case Nil
  then show ?case by simp
next
  case (Cons cid cids)
  obtain res b1 where step: "remote (assign_lead_call p cid) b = (res, b1)"
    by (cases "remote (assign_lead_call p cid) b")
  show ?case
  proof (cases res)
    case (Inl e)
    with Cons.prems step have "r = Some e" "issued' = issued @ [assign_lead_call p cid]"
      by simp_all
    moreover have "fst (remote (assign_lead_call p ((cid # cids) ! 0)) b) = Inl e"
      using step Inl by simp
    ultimately show ?thesis by (intro conjI impI allI) (simp, force)
  next
    case (Inr d)
    with Cons.prems step
    have rec: "assign_loop remote p cids (issued @ [assign_lead_call p cid], b1) = (r, issued', b')"
      by simp
    note ih = Cons.IH [OF rec]
    show ?thesis
    proof (intro conjI impI allI)
      assume "r = None"
      with ih show "issued' = issued @ map (assign_lead_call p) (cid # cids)" by simp
    next
      fix e assume "r = Some e"
      with ih obtain k b0 where k: "k < length cids"
        and i: "issued' = (issued @ [assign_lead_call p cid]) @ map (assign_lead_call p) (take (Suc k) cids)"
        and f: "fst (remote (assign_lead_call p (cids ! k)) b0) = Inl e"
        by blast
      have "Suc k < length (cid # cids)" using k by simp
      moreover have "issued' = issued @ map (assign_lead_call p) (take (Suc (Suc k)) (cid # cids))"
        using i by simp
      moreover have "fst (remote (assign_lead_call p ((cid # cids) ! Suc k)) b0) = Inl e"
        using f by simp
      ultimately show "\<exists>k<length (cid # cids).
          issued' = issued @ map (assign_lead_call p) (take (Suc k) (cid # cids)) \<and>
          (\<exists>b0. fst (remote (assign_lead_call p ((cid # cids) ! k)) b0) = Inl e)"
        by blast
    qed
  qed
qed

lemma assign_loop_no_raise:
  "\<forall>cid\<in>set ids. \<forall>b0. \<exists>d. fst (remote (assign_lead_call p cid) b0) = Inr d \<Longrightarrow>
     fst (assign_loop remote p ids (issued, b)) = None"
proof (induction ids arbitrary: issued b)
  case Nil
  then show ?case by simp
next
  case (Cons cid cids)
  obtain res b1 where step: "remote (assign_lead_call p cid) b = (res, b1)"
    by (cases "remote (assign_lead_call p cid) b")
  from Cons.prems obtain d where "fst (remote (assign_lead_call p cid) b) = Inr d"
    by fastforce
  with step have res: "res = Inr d" by simp
  have "fst (assign_loop remote p cids (issued @ [assign_lead_call p cid], b1)) = None"
    using Cons.prems by (intro Cons.IH) simp
  with step res show ?case by simp
qed

lemma state_after_Cons:
  "state_after remote p b (cid # cids) =
     state_after remote p (snd (remote (assign_lead_call p cid) b)) cids"
  by (simp add: state_after_def)

lemma state_after_Nil: "state_after remote p b [] = b"
  by (simp add: state_after_def)

lemma assign_loop_prefix:
  "\<forall>j<length pre. \<exists>d. fst (remote (assign_lead_call p (pre ! j))
       (state_after remote p b (take j pre))) = Inr d \<Longrightarrow>
   assign_loop remote p (pre @ rest) (issued, b) =
     assign_loop remote p rest (issued @ map (assign_lead_call p) pre, state_after remote p b pre)"
proof (induction pre arbitrary: issued b)
  case Nil
  then show ?case by (simp add: state_after_Nil)
next
  case (Cons cid pre)
  obtain res b1 where step: "remote (assign_lead_call p cid) b = (res, b1)"
    by (cases "remote (assign_lead_call p cid) b")
  from Cons.prems have "\<exists>d. fst (remote (assign_lead_call p ((cid # pre) ! 0))
       (state_after remote p b (take 0 (cid # pre)))) = Inr d"
    by blast
  then obtain d where res: "res = Inr d"
    using step by (auto simp: state_after_Nil)
  have later: "\<forall>j<length pre. \<exists>d. fst (remote (assign_lead_call p (pre ! j))
       (state_after remote p b1 (take j pre))) = Inr d"
  proof (intro allI impI)
    fix j assume "j < length pre"
    then have "Suc j < length (cid # pre)" by simp
    with Cons.prems have "\<exists>d. fst (remote (assign_lead_call p ((cid # pre) ! Suc j))
       (state_after remote p b (take (Suc j) (cid # pre)))) = Inr d"
      by blast
    then show "\<exists>d. fst (remote (assign_lead_call p (pre ! j))
       (state_after remote p b1 (take j pre))) = Inr d"
      using step by (simp add: state_after_Cons)
  qed
  have "assign_loop remote p ((cid # pre) @ rest) (issued, b) =
      assign_loop remote p (pre @ rest) (issued @ [assign_lead_call p cid], b1)"
    using step res by simp
  also have "\<dots> = assign_loop remote p rest
      ((issued @ [assign_lead_call p cid]) @ map (assign_lead_call p) pre,
       state_after remote p b1 pre)"
    using later by (rule Cons.IH)
  also have "\<dots> = assign_loop remote p rest
      (issued @ map (assign_lead_call p) (cid # pre), state_after remote p b (cid # pre))"
    using step by (simp add: state_after_Cons)
  finally show ?case .
qed

lemma assign_bulk_abort:
  assumes "candidate_ids p = pre @ cid # post"
      and "\<forall>j<length pre. \<exists>d. fst (remote (assign_lead_call p (pre ! j))
             (state_after remote p b (take j pre))) = Inr d"
      and "remote (assign_lead_call p cid) (state_after remote p b pre) = (Inl e, b2)"
  shows "assign_bulk remote p (issued, b) =
           (Inl e, issued @ map (assign_lead_call p) (pre @ [cid]), b2)"
proof -
  have "assign_loop remote p (candidate_ids p) (issued, b) =
      assign_loop remote p (cid # post)
        (issued @ map (assign_lead_call p) pre, state_after remote p b pre)"
    unfolding assms(1) using assms(2) by (rule assign_loop_prefix)
  also have "\<dots> = (Some e, issued @ map (assign_lead_call p) (pre @ [cid]), b2)"
    using assms(3) by simp
  finally show ?thesis by (simp add: assign_bulk_def)
qed

lemma assign_bulk_all_return:
  assumes "\<forall>j<length (candidate_ids p). \<exists>d. fst (remote (assign_lead_call p (candidate_ids p ! j))
             (state_after remote p b (take j (candidate_ids p)))) = Inr d"
  shows "assign_bulk remote p (issued, b) =
           (Inr \<lparr>assigned = length (candidate_ids p)\<rparr>,
            issued @ map (assign_lead_call p) (candidate_ids p),
            state_after remote p b (candidate_ids p))"
proof -
  have "assign_loop remote p (candidate_ids p @ []) (issued, b) =
      assign_loop remote p []
        (issued @ map (assign_lead_call p) (candidate_ids p),
         state_after remote p b (candidate_ids p))"
    using assms by (rule assign_loop_prefix)
  then show ?thesis by (simp add: assign_bulk_def)
qed

text \<open>
  Claim C5 says that the handler issues one \<^verbatim>\<open>assign_lead\<close> call per candidate id and
  returns \<^verbatim>\<open>{assigned: n}\<close> whether or not the calls succeeded. The loop has no
  exception handler: with a remote whose call for id 11 raises, the request for the ids
  10, 11, 12 does not return \<^verbatim>\<open>{assigned: 3}\<close>, and it issues two calls, not three.
\<close>

theorem assign_bulk_abort_counterexample:
  "fst (assign_bulk (remote_failing_on 11) sample_bulk ([], 0)) \<noteq> Inr \<lparr>assigned = 3\<rparr> \<and>
   length (fst (snd (assign_bulk (remote_failing_on 11) sample_bulk ([], 0)))) \<noteq> 3"
  by (simp add: assign_bulk_def sample_bulk_def remote_failing_on_def assign_lead_call_def)

text \<open>
  Claim C5, amended. The handler issues the \<^verbatim>\<open>assign_lead\<close> calls in the order of the
  candidate id list, one per id, each on the state of the backend the calls before it
  have left. If every call returns, it has issued exactly one call per id and returns
  \<^verbatim>\<open>{assigned: n}\<close>, whatever data the calls returned. If the calls for an initial
  segment of the list return and the call for the next id raises, the handler fails
  with that error, having issued the calls for that segment and the raising call only:
  the remaining ids get no call and no count is returned. Conversely, a handler that
  returns has issued one call per id, and a handler that fails has issued the calls for
  an initial segment of the list, the last of which raised the error it fails with.
\<close>

theorem assign_bulk_calls:
  "(\<forall>r. fst (assign_bulk remote p (issued, b)) = Inr r \<longrightarrow>
       r = \<lparr>assigned = length (candidate_ids p)\<rparr> \<and>
       fst (snd (assign_bulk remote p (issued, b))) =
         issued @ map (assign_lead_call p) (candidate_ids p)) \<and>
   (\<forall>e. fst (assign_bulk remote p (issued, b)) = Inl e \<longrightarrow>
       (\<exists>k<length (candidate_ids p).
          fst (snd (assign_bulk remote p (issued, b))) =
            issued @ map (assign_lead_call p) (take (Suc k) (candidate_ids p)) \<and>
          (\<exists>b0. fst (remote (assign_lead_call p (candidate_ids p ! k)) b0) = Inl e))) \<and>
   ((\<forall>cid\<in>set (candidate_ids p). \<forall>b0. \<exists>d. fst (remote (assign_lead_call p cid) b0) = Inr d) \<longrightarrow>
       fst (assign_bulk remote p (issued, b)) = Inr \<lparr>assigned = length (candidate_ids p)\<rparr>) \<and>
   ((\<forall>j<length (candidate_ids p). \<exists>d.
        fst (remote (assign_lead_call p (candidate_ids p ! j))
          (state_after remote p b (take j (candidate_ids p)))) = Inr d) \<longrightarrow>
       assign_bulk remote p (issued, b) =
         (Inr \<lparr>assigned = length (candidate_ids p)\<rparr>,
          issued @ map (assign_lead_call p) (candidate_ids p),
          state_after remote p b (candidate_ids p))) \<and>
   (\<forall>pre cid post e b2.
       candidate_ids p = pre @ cid # post \<and>
       (\<forall>j<length pre. \<exists>d.
          fst (remote (assign_lead_call p (pre ! j)) (state_after remote p b (take j pre))) = Inr d) \<and>
       remote (assign_lead_call p cid) (state_after remote p b pre) = (Inl e, b2) \<longrightarrow>
       assign_bulk remote p (issued, b) =
         (Inl e, issued @ map (assign_lead_call p) (pre @ [cid]), b2))"
proof -
  obtain r issued' b' where
    loop: "assign_loop remote p (candidate_ids p) (issued, b) = (r, issued', b')"
    by (cases "assign_loop remote p (candidate_ids p) (issued, b)")
  note calls = assign_loop_calls [OF loop]
  have res: "assign_bulk remote p (issued, b) =
      (case r of Some e \<Rightarrow> (Inl e, issued', b')
       | None \<Rightarrow> (Inr \<lparr>assigned = length (candidate_ids p)\<rparr>, issued', b'))"
    by (simp add: assign_bulk_def loop split: option.splits)
  have A: "\<forall>ra. fst (assign_bulk remote p (issued, b)) = Inr ra \<longrightarrow>
       ra = \<lparr>assigned = length (candidate_ids p)\<rparr> \<and>
       fst (snd (assign_bulk remote p (issued, b))) =
         issued @ map (assign_lead_call p) (candidate_ids p)"
    using calls by (cases r) (auto simp: res)
  have B: "\<forall>e. fst (assign_bulk remote p (issued, b)) = Inl e \<longrightarrow>
       (\<exists>k<length (candidate_ids p).
          fst (snd (assign_bulk remote p (issued, b))) =
            issued @ map (assign_lead_call p) (take (Suc k) (candidate_ids p)) \<and>
          (\<exists>b0. fst (remote (assign_lead_call p (candidate_ids p ! k)) b0) = Inl e))"
    using calls by (cases r) (auto simp: res)
  have C: "(\<forall>cid\<in>set (candidate_ids p). \<forall>b0. \<exists>d. fst (remote (assign_lead_call p cid) b0) = Inr d) \<longrightarrow>
       fst (assign_bulk remote p (issued, b)) = Inr \<lparr>assigned = length (candidate_ids p)\<rparr>"
  proof
    assume "\<forall>cid\<in>set (candidate_ids p). \<forall>b0. \<exists>d. fst (remote (assign_lead_call p cid) b0) = Inr d"
    then have "fst (assign_loop remote p (candidate_ids p) (issued, b)) = None"
      by (rule assign_loop_no_raise)
    with loop have "r = None" by simp
    then show "fst (assign_bulk remote p (issued, b)) = Inr \<lparr>assigned = length (candidate_ids p)\<rparr>"
      by (simp add: res)
  qed
  have D: "(\<forall>j<length (candidate_ids p). \<exists>d.
        fst (remote (assign_lead_call p (candidate_ids p ! j))
          (state_after remote p b (take j (candidate_ids p)))) = Inr d) \<longrightarrow>
       assign_bulk remote p (issued, b) =
         (Inr \<lparr>assigned = length (candidate_ids p)\<rparr>,
          issued @ map (assign_lead_call p) (candidate_ids p),
          state_after remote p b (candidate_ids p))"
    by (intro impI assign_bulk_all_return)
  have E: "\<forall>pre cid post e b2.
       candidate_ids p = pre @ cid # post \<and>
       (\<forall>j<length pre. \<exists>d.
          fst (remote (assign_lead_call p (pre ! j)) (state_after remote p b (take j pre))) = Inr d) \<and>
       remote (assign_lead_call p cid) (state_after remote p b pre) = (Inl e, b2) \<longrightarrow>
       assign_bulk remote p (issued, b) =
         (Inl e, issued @ map (assign_lead_call p) (pre @ [cid]), b2)"
  proof (intro allI impI)
    fix pre cid post e b2
    assume h: "candidate_ids p = pre @ cid # post \<and>
       (\<forall>j<length pre. \<exists>d.
          fst (remote (assign_lead_call p (pre ! j)) (state_after remote p b (take j pre))) = Inr d) \<and>
       remote (assign_lead_call p cid) (state_after remote p b pre) = (Inl e, b2)"
    show "assign_bulk remote p (issued, b) =
         (Inl e, issued @ map (assign_lead_call p) (pre @ [cid]), b2)"
      by (rule assign_bulk_abort [where post = post]) (use h in blast)+
  qed
  from A B C D E show ?thesis by blast
qed

theorem assign_bulk_calls_witness:
  "candidate_ids sample_bulk = [10] @ 11 # [12] \<and>
   fst (remote_failing_on 11 (assign_lead_call sample_bulk 10) 0) = Inr (Some []) \<and>
   state_after (remote_failing_on 11) sample_bulk 0 [10] = 1 \<and>
   remote_failing_on 11 (assign_lead_call sample_bulk 11) 1 =
     (Inl (APIError ''assign_lead failed''), 1) \<and>
   assign_bulk (remote_failing_on 11) sample_bulk ([], 0) =
     (Inl (APIError ''assign_lead failed''), map (assign_lead_call sample_bulk) [10, 11], 1) \<and>
   (\<forall>b0. fst (remote_failing_on 99 (assign_lead_call sample_bulk 10) b0) = Inr (Some [])) \<and>
   (\<forall>b0. fst (remote_failing_on 99 (assign_lead_call sample_bulk 11) b0) = Inr (Some [])) \<and>
   (\<forall>b0. fst (remote_failing_on 99 (assign_lead_call sample_bulk 12) b0) = Inr (Some [])) \<and>
   assign_bulk (remote_failing_on 99) sample_bulk ([], 0) =
     (Inr \<lparr>assigned = 3\<rparr>, map (assign_lead_call sample_bulk) [10, 11, 12], 3)"
proof -
  have ids: "candidate_ids sample_bulk = [10] @ 11 # [12]"
    by (simp add: sample_bulk_def)
  have each: "\<forall>b0. fst (remote_failing_on 99 (assign_lead_call sample_bulk cid) b0) = Inr (Some [])"
    if "cid \<in> {10, 11, 12}" for cid
    using that by (auto simp: remote_failing_on_def assign_lead_call_def)
  have first: "fst (remote_failing_on 11 (assign_lead_call sample_bulk 10) 0) = Inr (Some [])"
    by (simp add: remote_failing_on_def assign_lead_call_def)
  have st: "state_after (remote_failing_on 11) sample_bulk 0 [10] = 1"
    by (simp add: state_after_def remote_failing_on_def assign_lead_call_def)
  have raise: "remote_failing_on 11 (assign_lead_call sample_bulk 11) 1 =
     (Inl (APIError ''assign_lead failed''), 1)"
    by (simp add: remote_failing_on_def assign_lead_call_def)
  have pre: "\<forall>j<length [10::int]. \<exists>d.
      fst (remote_failing_on 11 (assign_lead_call sample_bulk ([10] ! j))
        (state_after (remote_failing_on 11) sample_bulk 0 (take j [10]))) = Inr d"
    using first by (simp add: state_after_def)
  note bad = assign_bulk_calls [of "remote_failing_on 11" sample_bulk "[]" 0]
  have raise': "remote_failing_on 11 (assign_lead_call sample_bulk 11)
      (state_after (remote_failing_on 11) sample_bulk 0 [10]) =
     (Inl (APIError ''assign_lead failed''), 1)"
    using raise st by simp
  have abort: "assign_bulk (remote_failing_on 11) sample_bulk ([], 0) =
     (Inl (APIError ''assign_lead failed''), [] @ map (assign_lead_call sample_bulk) ([10] @ [11]), 1)"
    by (rule bad [THEN conjunct2, THEN conjunct2, THEN conjunct2, THEN conjunct2, rule_format,
          of "[10]" 11 "[12]"])
       (intro conjI ids pre raise')
  have all: "\<forall>j<length (candidate_ids sample_bulk). \<exists>d.
      fst (remote_failing_on 99 (assign_lead_call sample_bulk (candidate_ids sample_bulk ! j))
        (state_after (remote_failing_on 99) sample_bulk 0 (take j (candidate_ids sample_bulk)))) = Inr d"
  proof (intro allI impI)
    fix j assume "j < length (candidate_ids sample_bulk)"
    then have "candidate_ids sample_bulk ! j \<in> {10, 11, 12}"
      by (auto simp: sample_bulk_def less_Suc_eq numeral_3_eq_3)
    from each [OF this] show "\<exists>d.
      fst (remote_failing_on 99 (assign_lead_call sample_bulk (candidate_ids sample_bulk ! j))
        (state_after (remote_failing_on 99) sample_bulk 0 (take j (candidate_ids sample_bulk)))) = Inr d"
      by blast
  qed
  note good = assign_bulk_calls [of "remote_failing_on 99" sample_bulk "[]" 0]
  have ok: "assign_bulk (remote_failing_on 99) sample_bulk ([], 0) =
         (Inr \<lparr>assigned = length (candidate_ids sample_bulk)\<rparr>,
          [] @ map (assign_lead_call sample_bulk) (candidate_ids sample_bulk),
          state_after (remote_failing_on 99) sample_bulk 0 (candidate_ids sample_bulk))"
    by (rule good [THEN conjunct2, THEN conjunct2, THEN conjunct2, THEN conjunct1, rule_format])
       (use all in blast)
  have fin: "state_after (remote_failing_on 99) sample_bulk 0 [10, 11, 12] = 3"
    by (simp add: state_after_def remote_failing_on_def assign_lead_call_def)
  have ok': "assign_bulk (remote_failing_on 99) sample_bulk ([], 0) =
     (Inr \<lparr>assigned = 3\<rparr>, map (assign_lead_call sample_bulk) [10, 11, 12], 3)"
    using ok fin by (simp add: sample_bulk_def)
  from ids first st raise abort each [of 10] each [of 11] each [of 12] ok'
  show ?thesis by simp
qed

section \<open>Sorting by newest\<close>

lemma rev_sort_rev_mset: "mset (rev (sort_key f (rev xs))) = mset xs"
  by simp

lemma rev_sort_rev_descending:
  "sorted_wrt (\<lambda>a b. f b \<le> f a) (rev (sort_key f (rev xs)))"
proof -
  have "sorted (map f (sort_key f (rev xs)))" by (rule sorted_sort_key)
  then have "sorted_wrt (\<lambda>a b. f a \<le> f b) (sort_key f (rev xs))"
    by (simp add: sorted_wrt_map)
  then show ?thesis by (simp add: sorted_wrt_rev)
qed

lemma rev_sort_rev_stable:
  "filter (\<lambda>y. f y = k) (rev (sort_key f (rev xs))) = filter (\<lambda>y. f y = k) xs"
proof -
  have "filter (\<lambda>y. f y = k) (rev (sort_key f (rev xs))) =
      rev (filter (\<lambda>y. f y = k) (sort_key f (rev xs)))"
    by (simp add: rev_filter)
  also have "\<dots> = rev (filter (\<lambda>y. f y = k) (rev xs))"
    by (simp only: sort_key_stable)
  also have "\<dots> = filter (\<lambda>y. f y = k) xs"
    by (simp add: rev_filter)
  finally show ?thesis .
qed

lemma rev_sort_rev_idem:
  "rev (sort_key f (rev (rev (sort_key f (rev xs))))) = rev (sort_key f (rev xs))"
  by (simp add: sort_key_id_if_sorted)

lemma rev_sort_rev_short: "length xs \<le> 1 \<Longrightarrow> rev (sort_key f (rev xs)) = xs"
  by (cases xs) auto

lemma textual_key: "created_at_textual x \<Longrightarrow> is_str (created_at_key x)"
  by (auto simp: created_at_textual_def created_at_key_def dict_get_def split: option.splits)

lemma sorted_newest_textual:
  assumes "list_all created_at_textual xs"
  shows "sorted_newest xs = Inr (rev (sort_key created_at_str (rev xs)))"
proof -
  have "list_all (\<lambda>x. is_str (created_at_key x)) xs"
    using assms by (auto simp: list_all_iff textual_key)
  moreover have "created_at_str = (\<lambda>x. str_of (created_at_key x))"
    by (rule ext) (simp add: created_at_str_def)
  ultimately show ?thesis
    by (simp add: sorted_newest_def sorted_reverse_def rev_sort_rev_short)
qed

lemma textual_rev_sort_rev:
  "list_all created_at_textual xs \<Longrightarrow> list_all created_at_textual (rev (sort_key f (rev xs)))"
  by (simp add: list_all_iff)

lemma sorted_newest_props:
  assumes "list_all created_at_textual xs"
  shows "\<exists>out. sorted_newest xs = Inr out \<and> mset out = mset xs \<and>
           sorted_wrt (\<lambda>a b. created_at_str b \<le> created_at_str a) out \<and>
           (\<forall>k. filter (\<lambda>r. created_at_str r = k) out = filter (\<lambda>r. created_at_str r = k) xs) \<and>
           sorted_newest out = Inr out"
proof -
  let ?out = "rev (sort_key created_at_str (rev xs))"
  have 1: "sorted_newest xs = Inr ?out" using assms by (rule sorted_newest_textual)
  have 2: "mset ?out = mset xs" by (rule rev_sort_rev_mset)
  have 3: "sorted_wrt (\<lambda>a b. created_at_str b \<le> created_at_str a) ?out"
    by (rule rev_sort_rev_descending)
  have 4: "\<forall>k. filter (\<lambda>r. created_at_str r = k) ?out = filter (\<lambda>r. created_at_str r = k) xs"
    by (intro allI rev_sort_rev_stable)
  have "sorted_newest ?out = Inr (rev (sort_key created_at_str (rev ?out)))"
    using assms by (intro sorted_newest_textual textual_rev_sort_rev)
  then have 5: "sorted_newest ?out = Inr ?out"
    by (simp only: rev_sort_rev_idem)
  from 1 2 3 4 5 show ?thesis by blast
qed

lemma sample_sorted: "sorted_newest sample_candidates =
    Inr [sample_candidates ! 1, sample_candidates ! 0, sample_candidates ! 2]"
  by (simp add: sorted_newest_def sorted_reverse_def sample_candidates_def created_at_key_def
      dict_get_def)

lemma sample_textual: "list_all created_at_textual sample_candidates"
  by (simp add: sample_candidates_def created_at_textual_def)

lemma sample_filtered_rpc:
  "rpc sample_store ''get_leads_filtered'' ps = Inr (Some sample_candidates)"
  by (simp add: sample_store_def mem_store_def sample_procs_def)

lemma sample_lead_query:
  "execute sample_store (lead_list_query sample_now ''E1'' None None None)
     = Inr (Some sample_candidates)"
  by (simp add: sample_lead_query_plain sample_candidates_query)

text \<open>
  Claim C7. For the rows the record store delivers to either lead list, each with a
  creation timestamp that is a string (or missing, which sorts as the empty string): with
  the sort directive \<^verbatim>\<open>newest\<close> the list returned is a reordering of the rows
  delivered, descending in the creation-timestamp string, in which rows of equal
  timestamp keep their order, and sorting it again gives the same list; with any other
  or no sort directive the list returned is the list delivered.
\<close>

theorem newest_sort_stable_descending:
  assumes "execute st (lead_list_query now eid sq hm fu) = Inr dg"
      and "rpc st ''get_leads_filtered'' (get_leads_filtered_params payload) = Inr dp"
  shows
   "(so \<noteq> Some ''newest'' \<longrightarrow>
       lead_list_get st now eid sq hm fu so =
         Inr \<lparr>executive_id = eid, lead_count = length (or_empty dg), leads = or_empty dg\<rparr>) \<and>
    (sort_by payload \<noteq> Some ''newest'' \<longrightarrow>
       lead_list_post st payload =
         Inr \<lparr>executive_id = fp_executive_id payload, lead_count = length (or_empty dp),
              leads = or_empty dp\<rparr>) \<and>
    (list_all created_at_textual (or_empty dg) \<longrightarrow>
       (\<exists>out. lead_list_get st now eid sq hm fu (Some ''newest'') =
                 Inr \<lparr>executive_id = eid, lead_count = length out, leads = out\<rparr> \<and>
          mset out = mset (or_empty dg) \<and>
          sorted_wrt (\<lambda>a b. created_at_str b \<le> created_at_str a) out \<and>
          (\<forall>k. filter (\<lambda>r. created_at_str r = k) out =
                 filter (\<lambda>r. created_at_str r = k) (or_empty dg)) \<and>
          sorted_newest out = Inr out)) \<and>
    (list_all created_at_textual (or_empty dp) \<and> sort_by payload = Some ''newest'' \<longrightarrow>
       (\<exists>out. lead_list_post st payload =
                 Inr \<lparr>executive_id = fp_executive_id payload, lead_count = length out,
                      leads = out\<rparr> \<and>
          mset out = mset (or_empty dp) \<and>
          sorted_wrt (\<lambda>a b. created_at_str b \<le> created_at_str a) out \<and>
          (\<forall>k. filter (\<lambda>r. created_at_str r = k) out =
                 filter (\<lambda>r. created_at_str r = k) (or_empty dp)) \<and>
          sorted_newest out = Inr out))"
proof (intro conjI impI)
  assume "so \<noteq> Some ''newest''"
  then show "lead_list_get st now eid sq hm fu so =
         Inr \<lparr>executive_id = eid, lead_count = length (or_empty dg), leads = or_empty dg\<rparr>"
    using assms(1) by (simp add: lead_list_get_def)
next
  assume "sort_by payload \<noteq> Some ''newest''"
  then show "lead_list_post st payload =
         Inr \<lparr>executive_id = fp_executive_id payload, lead_count = length (or_empty dp),
              leads = or_empty dp\<rparr>"
    using assms(2) by (simp add: lead_list_post_def)
next
  assume "list_all created_at_textual (or_empty dg)"
  from sorted_newest_props [OF this] obtain out where
    o: "sorted_newest (or_empty dg) = Inr out" and
    rest: "mset out = mset (or_empty dg)"
      "sorted_wrt (\<lambda>a b. created_at_str b \<le> created_at_str a) out"
      "\<forall>k. filter (\<lambda>r. created_at_str r = k) out = filter (\<lambda>r. created_at_str r = k) (or_empty dg)"
      "sorted_newest out = Inr out"
    by blast
  have "lead_list_get st now eid sq hm fu (Some ''newest'') =
      Inr \<lparr>executive_id = eid, lead_count = length out, leads = out\<rparr>"
    using assms(1) o by (simp add: lead_list_get_def)
  with rest show "\<exists>out. lead_list_get st now eid sq hm fu (Some ''newest'') =
                 Inr \<lparr>executive_id = eid, lead_count = length out, leads = out\<rparr> \<and>
          mset out = mset (or_empty dg) \<and>
          sorted_wrt (\<lambda>a b. created_at_str b \<le> created_at_str a) out \<and>
          (\<forall>k. filter (\<lambda>r. created_at_str r = k) out =
                 filter (\<lambda>r. created_at_str r = k) (or_empty dg)) \<and>
          sorted_newest out = Inr out"
    by blast
next
  assume a: "list_all created_at_textual (or_empty dp) \<and> sort_by payload = Some ''newest''"
  then have "list_all created_at_textual (or_empty dp)" by simp
  from sorted_newest_props [OF this] obtain out where
    o: "sorted_newest (or_empty dp) = Inr out" and
    rest: "mset out = mset (or_empty dp)"
      "sorted_wrt (\<lambda>a b. created_at_str b \<le> created_at_str a) out"
      "\<forall>k. filter (\<lambda>r. created_at_str r = k) out = filter (\<lambda>r. created_at_str r = k) (or_empty dp)"
      "sorted_newest out = Inr out"
    by blast
  have "lead_list_post st payload =
      Inr \<lparr>executive_id = fp_executive_id payload, lead_count = length out, leads = out\<rparr>"
    using assms(2) o a by (simp add: lead_list_post_def)
  with rest show "\<exists>out. lead_list_post st payload =
                 Inr \<lparr>executive_id = fp_executive_id payload, lead_count = length out,
                      leads = out\<rparr> \<and>
          mset out = mset (or_empty dp) \<and>
          sorted_wrt (\<lambda>a b. created_at_str b \<le> created_at_str a) out \<and>
          (\<forall>k. filter (\<lambda>r. created_at_str r = k) out =
                 filter (\<lambda>r. created_at_str r = k) (or_empty dp)) \<and>
          sorted_newest out = Inr out"
    by blast
qed

theorem newest_sort_stable_descending_witness:
  "execute sample_store (lead_list_query sample_now ''E1'' None None None)
     = Inr (Some sample_candidates) \<and>
   rpc sample_store ''get_leads_filtered''
     (get_leads_filtered_params ((FilterPayload_defaults ''E1'')\<lparr>sort_by := Some ''newest''\<rparr>))
     = Inr (Some sample_candidates) \<and>
   list_all created_at_textual sample_candidates \<and>
   lead_list_get sample_store sample_now ''E1'' None None None None =
     Inr \<lparr>executive_id = ''E1'', lead_count = 3, leads = sample_candidates\<rparr> \<and>
   (\<exists>out. lead_list_get sample_store sample_now ''E1'' None None None (Some ''newest'') =
            Inr \<lparr>executive_id = ''E1'', lead_count = length out, leads = out\<rparr> \<and>
      out = [sample_candidates ! 1, sample_candidates ! 0, sample_candidates ! 2] \<and>
      mset out = mset sample_candidates \<and>
      sorted_wrt (\<lambda>a b. created_at_str b \<le> created_at_str a) out \<and>
      sorted_newest out = Inr out) \<and>
   (\<exists>out. lead_list_post sample_store ((FilterPayload_defaults ''E1'')\<lparr>sort_by := Some ''newest''\<rparr>) =
            Inr \<lparr>executive_id = ''E1'', lead_count = length out, leads = out\<rparr> \<and>
      mset out = mset sample_candidates \<and> sorted_newest out = Inr out)"
proof -
  let ?p = "(FilterPayload_defaults ''E1'')\<lparr>sort_by := Some ''newest''\<rparr>"
  note inst = newest_sort_stable_descending [where payload = ?p and so = None,
      OF sample_lead_query sample_filtered_rpc]
  have eid: "fp_executive_id ?p = ''E1''" and sb: "sort_by ?p = Some ''newest''"
    by (simp_all add: FilterPayload_defaults_def)
  have plain: "lead_list_get sample_store sample_now ''E1'' None None None None =
     Inr \<lparr>executive_id = ''E1'', lead_count = 3, leads = sample_candidates\<rparr>"
    using inst by (simp add: or_empty_def) (simp add: sample_candidates_def)
  from inst sample_textual obtain out where
    g: "lead_list_get sample_store sample_now ''E1'' None None None (Some ''newest'') =
            Inr \<lparr>executive_id = ''E1'', lead_count = length out, leads = out\<rparr>"
    and gp: "mset out = mset sample_candidates"
      "sorted_wrt (\<lambda>a b. created_at_str b \<le> created_at_str a) out"
      "sorted_newest out = Inr out"
    by (auto simp: or_empty_def)
  have "lead_list_get sample_store sample_now ''E1'' None None None (Some ''newest'') =
      Inr \<lparr>executive_id = ''E1'', lead_count = 3,
        leads = [sample_candidates ! 1, sample_candidates ! 0, sample_candidates ! 2]\<rparr>"
    by (simp add: lead_list_get_def sample_lead_query or_empty_def sample_sorted)
  with g have oeq: "out = [sample_candidates ! 1, sample_candidates ! 0, sample_candidates ! 2]"
    by simp
  from inst sample_textual sb obtain out' where
    p: "lead_list_post sample_store ?p =
            Inr \<lparr>executive_id = fp_executive_id ?p, lead_count = length out', leads = out'\<rparr>"
    and pp: "mset out' = mset sample_candidates" "sorted_newest out' = Inr out'"
    by (auto simp: or_empty_def)
  from p eid have p': "lead_list_post sample_store ?p =
            Inr \<lparr>executive_id = ''E1'', lead_count = length out', leads = out'\<rparr>"
    by simp
  from sample_lead_query sample_filtered_rpc sample_textual plain g gp oeq p' pp
  show ?thesis by blast
qed

end
